theory Spec2Isabelle
  imports Main "HOL-Library.AList" "HOL-Library.Char_ord" "HOL-Library.List_Lexorder"
    "HOL-Library.Multiset" "HOL-Library.Sublist"
begin

section \<open>Go strings\<close>

text \<open>
  A Go \<^verbatim>\<open>string\<close> is a sequence of bytes, here a \<^typ>\<open>string\<close> (a list of 8-bit
  characters). The functions of package \<^verbatim>\<open>strings\<close> that the generator calls are
  written out below. Go compares strings byte by byte, a proper prefix being smaller;
  that is the lexicographic order on \<^typ>\<open>char list\<close> over the order of the byte
  values, which is what \<^verbatim>\<open>sort.Strings\<close> sorts by.
\<close>

text \<open>\<^verbatim>\<open>strings.Split(s, sep)\<close> for a separator of one byte: the pieces between the
  separators, empty pieces kept; the empty string gives one empty piece.\<close>

fun Split :: "string \<Rightarrow> char \<Rightarrow> string list" where
  "Split [] sep = [[]]"
| "Split (c # cs) sep =
     (if c = sep then [] # Split cs sep
      else (case Split cs sep of
              [] \<Rightarrow> [[c]]
            | piece # pieces \<Rightarrow> (c # piece) # pieces))"

text \<open>\<^verbatim>\<open>strings.SplitN(s, sep, 2)\<close> for a separator of one byte: at most two pieces,
  cut at the first separator; one piece when there is no separator.\<close>

definition SplitN2 :: "string \<Rightarrow> char \<Rightarrow> string list" where
  "SplitN2 s sep =
     (if sep \<in> set s
      then [takeWhile (\<lambda>c. c \<noteq> sep) s, tl (dropWhile (\<lambda>c. c \<noteq> sep) s)]
      else [s])"

text \<open>The white space of \<^verbatim>\<open>strings.TrimSpace\<close> below \<^verbatim>\<open>0x80\<close>: tab, line feed,
  vertical tab, form feed, carriage return and space. Go also trims the white space of
  Unicode beyond ASCII (U+0085, U+00A0, U+2000 and the like), which is several bytes in
  UTF-8; the model leaves such bytes in place, so it is Go's function on every string
  that has none of them at the ends.\<close>

definition asciiSpace :: "char \<Rightarrow> bool" where
  "asciiSpace c \<longleftrightarrow> c \<in> set [CHR 0x09, CHR 0x0A, CHR 0x0B, CHR 0x0C, CHR 0x0D, CHR '' '']"

definition TrimSpace :: "string \<Rightarrow> string" where
  "TrimSpace s = rev (dropWhile asciiSpace (rev (dropWhile asciiSpace s)))"

definition HasSuffix :: "string \<Rightarrow> string \<Rightarrow> bool" where
  "HasSuffix s suf \<longleftrightarrow>
     length suf \<le> length s \<and> drop (length s - length suf) s = suf"

definition TrimSuffix :: "string \<Rightarrow> string \<Rightarrow> string" where
  "TrimSuffix s suf =
     (if HasSuffix s suf then take (length s - length suf) s else s)"

definition TrimPrefix :: "string \<Rightarrow> string \<Rightarrow> string" where
  "TrimPrefix s pre =
     (if take (length pre) s = pre then drop (length pre) s else s)"

text \<open>\<^verbatim>\<open>strings.ReplaceAll(s, old, new)\<close> where both are one byte long.\<close>

definition ReplaceAll :: "string \<Rightarrow> char \<Rightarrow> char \<Rightarrow> string" where
  "ReplaceAll s old new = map (\<lambda>c. if c = old then new else c) s"

text \<open>\<^verbatim>\<open>strings.Join(elems, sep)\<close>.\<close>

fun Join :: "string list \<Rightarrow> string \<Rightarrow> string" where
  "Join [] sep = []"
| "Join [e] sep = e"
| "Join (e # es) sep = e @ sep @ Join es sep"

text \<open>\<^verbatim>\<open>strings.ToLower\<close> on ASCII: the letters A to Z are mapped to a to z. Bytes
  from \<^verbatim>\<open>0x80\<close> on are left as they are (Go maps the letters of Unicode too; the
  identifiers of a protobuf schema are ASCII).\<close>

definition toLowerByte :: "char \<Rightarrow> char" where
  "toLowerByte c =
     (case map_of (zip ''ABCDEFGHIJKLMNOPQRSTUVWXYZ'' ''abcdefghijklmnopqrstuvwxyz'') c of
        Some l \<Rightarrow> l
      | None \<Rightarrow> c)"

definition ToLower :: "string \<Rightarrow> string" where
  "ToLower s = map toLowerByte s"

section \<open>Configuration\<close>

text \<open>The structs \<^verbatim>\<open>OutputPathConfig\<close> and \<^verbatim>\<open>PluginConfig\<close>. Both have a field
  \<^verbatim>\<open>ServiceImport\<close>; the one of a target is \<open>ServiceImport\<close>, the global one is
  \<open>GlobalServiceImport\<close>.\<close>

record OutputPathConfig =
  Path :: string
  ServiceImport :: string

record PluginConfig =
  GlobalServiceImport :: string
  ServiceImportJS :: string
  TypesImportPath :: string
  OutputPaths :: "OutputPathConfig list"
  OutputPathsJS :: "OutputPathConfig list"

text \<open>The body of the loop of \<^verbatim>\<open>parseOutputPaths\<close>: one entry of the list value,
  appended to the targets collected so far, or skipped when it is blank.\<close>

definition parseOutputEntry :: "OutputPathConfig list \<Rightarrow> string \<Rightarrow> OutputPathConfig list" where
  "parseOutputEntry paths entry =
     (let pathStr = TrimSpace entry in
      if pathStr = [] then paths
      else (case SplitN2 pathStr (CHR '':'') of
              [p, i] \<Rightarrow> paths @ [\<lparr>Path = TrimSpace p, ServiceImport = TrimSpace i\<rparr>]
            | _ \<Rightarrow> paths @ [\<lparr>Path = pathStr, ServiceImport = []\<rparr>]))"

definition parseOutputPaths :: "string \<Rightarrow> OutputPathConfig list" where
  "parseOutputPaths v = foldl parseOutputEntry [] (Split v (CHR '';''))"

text \<open>The configuration that \<^verbatim>\<open>parsePluginOptions\<close> starts from.\<close>

definition defaultConfig :: PluginConfig where
  "defaultConfig =
     \<lparr>GlobalServiceImport = ''./api'',
      ServiceImportJS = [],
      TypesImportPath = ''@/api/proto-types'',
      OutputPaths = [],
      OutputPathsJS = []\<rparr>"

text \<open>The \<^verbatim>\<open>switch\<close> of \<^verbatim>\<open>parsePluginOptions\<close> on the key: a key it knows stores the
  value, any other key leaves the configuration as it is.\<close>

definition applyOption :: "string \<Rightarrow> string \<Rightarrow> PluginConfig \<Rightarrow> PluginConfig" where
  "applyOption key val config =
     (if key = ''service_import'' then config\<lparr>GlobalServiceImport := val\<rparr>
      else if key = ''service_import_js'' then config\<lparr>ServiceImportJS := val\<rparr>
      else if key = ''types_import_path'' then config\<lparr>TypesImportPath := val\<rparr>
      else if key = ''output_paths'' then config\<lparr>OutputPaths := parseOutputPaths val\<rparr>
      else if key = ''output_paths_js'' then config\<lparr>OutputPathsJS := parseOutputPaths val\<rparr>
      else config)"

text \<open>The body of the loop of \<^verbatim>\<open>parsePluginOptions\<close>: one \<^verbatim>\<open>key=value\<close> pair
  applied to the configuration; a pair that does not split in two is passed over.\<close>

definition parsePair :: "PluginConfig \<Rightarrow> string \<Rightarrow> PluginConfig" where
  "parsePair config pair =
     (case SplitN2 pair (CHR ''='') of
        [k, v] \<Rightarrow> applyOption (TrimSpace k) (TrimSpace v) config
      | _ \<Rightarrow> config)"

text \<open>\<^verbatim>\<open>parsePluginOptions\<close> returns a configuration and an error; the error is the
  left summand. No path of the source returns one.\<close>

datatype config_error = ConfigError string

definition parsePluginOptions :: "string \<Rightarrow> config_error + PluginConfig" where
  "parsePluginOptions param =
     (if param = [] then Inr defaultConfig
      else Inr (foldl parsePair defaultConfig (Split param (CHR '',''))))"

section \<open>Descriptors and HTTP bindings\<close>

text \<open>What the generator reads of the descriptors that the protobuf compiler hands
  over. The oneof \<^verbatim>\<open>pattern\<close> of \<^verbatim>\<open>google.api.HttpRule\<close> has one variant for each
  verb and one for a custom verb (kind and path); the Go field \<^verbatim>\<open>Pattern\<close> is nil
  when none is set. The extension \<^verbatim>\<open>google.api.http\<close> of the options of a method
  is absent or one such rule, and the options themselves may be nil.\<close>

datatype isHttpRule_Pattern =
    HttpRule_Get string
  | HttpRule_Put string
  | HttpRule_Post string
  | HttpRule_Delete string
  | HttpRule_Patch string
  | HttpRule_Custom string string

datatype annotations_HttpRule = annotations_HttpRule (Pattern: "isHttpRule_Pattern option")

datatype MethodOptions = MethodOptions (E_Http: "annotations_HttpRule option")

text \<open>A message: \<^verbatim>\<open>Desc.Name()\<close>, the name without the package, and the path of
  \<^verbatim>\<open>Desc.ParentFile()\<close>, which the source tests for nil.\<close>

record Message =
  MessageName :: string
  ParentFile :: "string option"

text \<open>A method: \<^verbatim>\<open>Desc.Name()\<close>, \<^verbatim>\<open>Desc.Options()\<close>, \<^verbatim>\<open>Input\<close> and \<^verbatim>\<open>Output\<close>. The
  compiler's front end fills in both messages of every method, and
  \<^verbatim>\<open>generateFrontendApi\<close> reads them without a test, so they are not optional here.\<close>

record Method =
  MethodDescName :: string
  Options :: "MethodOptions option"
  Input :: Message
  Output :: Message

record Service =
  ServiceDescName :: string
  ServiceMethods :: "Method list"

text \<open>The struct \<^verbatim>\<open>HttpRule\<close> of the generator (fields \<^verbatim>\<open>Method\<close> and \<^verbatim>\<open>Path\<close>).\<close>

record HttpRule =
  HttpVerb :: string
  HttpRulePath :: string

definition extractHttpRule :: "Method \<Rightarrow> HttpRule option" where
  "extractHttpRule method =
     (case Options method of
        None \<Rightarrow> None
      | Some options \<Rightarrow>
          (case E_Http options of
             None \<Rightarrow> None
           | Some rule \<Rightarrow>
               (case Pattern rule of
                  None \<Rightarrow> None
                | Some (HttpRule_Post p) \<Rightarrow>
                    if length p > 0 then Some \<lparr>HttpVerb = ''post'', HttpRulePath = p\<rparr> else None
                | Some (HttpRule_Get p) \<Rightarrow>
                    if length p > 0 then Some \<lparr>HttpVerb = ''get'', HttpRulePath = p\<rparr> else None
                | Some (HttpRule_Put p) \<Rightarrow>
                    if length p > 0 then Some \<lparr>HttpVerb = ''put'', HttpRulePath = p\<rparr> else None
                | Some (HttpRule_Delete p) \<Rightarrow>
                    if length p > 0 then Some \<lparr>HttpVerb = ''delete'', HttpRulePath = p\<rparr> else None
                | Some (HttpRule_Patch p) \<Rightarrow>
                    if length p > 0 then Some \<lparr>HttpVerb = ''patch'', HttpRulePath = p\<rparr> else None
                | Some (HttpRule_Custom k p) \<Rightarrow> None)))"

record MethodInfo =
  MethodName :: string
  HttpPath :: string
  HttpMethod :: string
  RequestType :: string
  ResponseType :: string

text \<open>The first loop of \<^verbatim>\<open>generateFrontendApi\<close>: the methods that have a binding, in
  the order of their declaration.\<close>

definition methodInfo :: "Method \<Rightarrow> MethodInfo list" where
  "methodInfo method =
     (case extractHttpRule method of
        None \<Rightarrow> []
      | Some httpRule \<Rightarrow>
          [\<lparr>MethodName = MethodDescName method,
            HttpPath = HttpRulePath httpRule,
            HttpMethod = ToLower (HttpVerb httpRule),
            RequestType = MessageName (Input method),
            ResponseType = MessageName (Output method)\<rparr>])"

definition boundMethods :: "Service \<Rightarrow> MethodInfo list" where
  "boundMethods service = concat (map methodInfo (ServiceMethods service))"

definition toCamelCase :: "string \<Rightarrow> string" where
  "toCamelCase s = (if length s = 0 then s else ToLower (take 1 s) @ drop 1 s)"

section \<open>Type imports\<close>

text \<open>\<^verbatim>\<open>uniqueAndSort\<close> puts the strings into a set, reads the set back in the order the
  Go map happens to give and sorts. The order of reading is the one of first
  occurrence here; the sorted result does not depend on it.\<close>

definition uniqueAndSort :: "string list \<Rightarrow> string list" where
  "uniqueAndSort strs = sort (remdups strs)"

definition protoFileToImportPath :: "string \<Rightarrow> string" where
  "protoFileToImportPath protoFilePath =
     (if protoFilePath = [] then []
      else ReplaceAll (TrimPrefix (TrimSuffix protoFilePath ''.proto'') ''./'') (CHR 0x5C) (CHR ''/''))"

text \<open>The Go maps of \<^verbatim>\<open>collectTypeImports\<close> are association lists with one entry for
  each key: storing under a key that is there replaces its value, storing under a new
  key adds an entry. \<open>recordType\<close> is \<^verbatim>\<open>typeFileMap[typeName] = fileDesc.Path()\<close> for
  one message; \<open>scanMethod\<close> is the body of the loop over the methods of the service,
  which takes the methods whose name is among the bound ones.\<close>

definition recordType :: "Message \<Rightarrow> (string \<times> string) list \<Rightarrow> (string \<times> string) list" where
  "recordType msg typeFileMap =
     (case ParentFile msg of
        None \<Rightarrow> typeFileMap
      | Some path \<Rightarrow> AList.update (MessageName msg) path typeFileMap)"

definition scanMethod :: "string list \<Rightarrow> Method \<Rightarrow> (string \<times> string) list \<Rightarrow> (string \<times> string) list" where
  "scanMethod methodMap method typeFileMap =
     (if MethodDescName method \<in> set methodMap
      then recordType (Output method) (recordType (Input method) typeFileMap)
      else typeFileMap)"

text \<open>The body of the loop over \<^verbatim>\<open>typeFileMap\<close>:
  \<^verbatim>\<open>importMap[importPath] = append(importMap[importPath], typeName)\<close>. Go visits the
  entries of a map in an order it does not fix; \<open>groupImports\<close> takes them in the order
  of a list, and the theorems below hold for every order.\<close>

definition addImport :: "string \<times> string \<Rightarrow> (string \<times> string list) list \<Rightarrow> (string \<times> string list) list" where
  "addImport entry importMap =
     (let importPath = protoFileToImportPath (snd entry) in
      if importPath \<noteq> []
      then AList.update importPath
             ((case map_of importMap importPath of None \<Rightarrow> [] | Some names \<Rightarrow> names) @ [fst entry])
             importMap
      else importMap)"

definition groupImports :: "(string \<times> string) list \<Rightarrow> (string \<times> string list) list" where
  "groupImports typeFileMap =
     map (\<lambda>(importPath, typeNames). (importPath, uniqueAndSort typeNames))
       (fold addImport typeFileMap [])"

definition collectTypeImports :: "Service \<Rightarrow> MethodInfo list \<Rightarrow> (string \<times> string list) list" where
  "collectTypeImports service methods =
     groupImports (fold (scanMethod (map MethodName methods)) (ServiceMethods service) [])"

text \<open>For the statements about the scan: the pairs of type name and file that the loop
  over the methods stores in \<^verbatim>\<open>typeFileMap\<close>, in the order in which it stores them (for
  each method that is taken, the request type and then the response type).\<close>

definition messageRecord :: "Message \<Rightarrow> (string \<times> string) list" where
  "messageRecord msg =
     (case ParentFile msg of None \<Rightarrow> [] | Some path \<Rightarrow> [(MessageName msg, path)])"

definition recordedTypes :: "string list \<Rightarrow> Method list \<Rightarrow> (string \<times> string) list" where
  "recordedTypes methodMap methods =
     concat (map (\<lambda>method. if MethodDescName method \<in> set methodMap
                            then messageRecord (Input method) @ messageRecord (Output method)
                            else []) methods)"

section \<open>Rendering\<close>

record ServiceInfo =
  ServiceName :: string
  ApiFileName :: string
  Methods :: "MethodInfo list"
  InfoServiceImport :: string
  InfoTypesImportPath :: string
  TypeImports :: "(string \<times> string list) list"

definition nl :: string where
  "nl = [CHR 0x0A]"

definition quote :: string where
  "quote = [CHR 0x27]"

text \<open>One \<^verbatim>\<open>import type\<close> line of \<^verbatim>\<open>generateTypeScriptCode\<close>, for one import path.\<close>

definition typeImportLine :: "ServiceInfo \<Rightarrow> string \<Rightarrow> string" where
  "typeImportLine data importPath =
     (let typeNames = (case map_of (TypeImports data) importPath of None \<Rightarrow> [] | Some names \<Rightarrow> names);
          fullImportPath =
            InfoTypesImportPath data
            @ (if \<not> HasSuffix (InfoTypesImportPath data) ''/'' \<and> importPath \<noteq> [] then ''/'' else [])
            @ importPath
      in ''import type { '' @ Join typeNames '', '' @ '' } from '' @ quote @ fullImportPath
         @ quote @ '';'' @ nl)"

text \<open>The import paths in the order in which the lines are written.\<close>

definition sortedImportPaths :: "ServiceInfo \<Rightarrow> string list" where
  "sortedImportPaths data = sort (map fst (TypeImports data))"

definition typeImportBlock :: "ServiceInfo \<Rightarrow> string" where
  "typeImportBlock data =
     (if length (TypeImports data) > 0
      then concat (map (typeImportLine data) (sortedImportPaths data))
      else [])"

text \<open>The loop over the methods: a comma after every entry but the last one.\<close>

fun typedEntries :: "MethodInfo list \<Rightarrow> string" where
  "typedEntries [] = []"
| "typedEntries (method # rest) =
     ''  '' @ MethodName method @ '': (data: '' @ RequestType method @ ''): Promise<''
     @ ResponseType method @ ''> =>'' @ nl
     @ ''    service.'' @ HttpMethod method @ ''('' @ quote @ HttpPath method @ quote @ '', data)''
     @ (if rest \<noteq> [] then '','' @ nl else nl)
     @ typedEntries rest"

definition generateTypeScriptCode :: "ServiceInfo \<Rightarrow> string" where
  "generateTypeScriptCode data =
     ''import service from '' @ quote @ InfoServiceImport data @ quote @ '';'' @ nl
     @ typeImportBlock data
     @ nl
     @ ''export const '' @ ApiFileName data @ '' = {'' @ nl
     @ typedEntries (Methods data)
     @ ''};'' @ nl @ nl
     @ ''export default '' @ ApiFileName data @ '';'' @ nl"

fun untypedEntries :: "MethodInfo list \<Rightarrow> string" where
  "untypedEntries [] = []"
| "untypedEntries (method # rest) =
     ''    '' @ MethodName method @ '': (data) => service.'' @ HttpMethod method
     @ ''('' @ quote @ HttpPath method @ quote @ '', data)''
     @ (if rest \<noteq> [] then '','' @ nl else nl)
     @ untypedEntries rest"

definition generateJavaScriptCode :: "ServiceInfo \<Rightarrow> string" where
  "generateJavaScriptCode data =
     ''import service from '' @ quote @ InfoServiceImport data @ quote @ '';'' @ nl @ nl
     @ ''export const '' @ ApiFileName data @ '' = {'' @ nl
     @ untypedEntries (Methods data)
     @ ''};'' @ nl @ nl
     @ ''export default '' @ ApiFileName data @ '';'' @ nl"

section \<open>The file system\<close>

text \<open>The generator reaches the file system through \<^verbatim>\<open>os.Stat\<close>, \<^verbatim>\<open>os.RemoveAll\<close>,
  \<^verbatim>\<open>os.MkdirAll\<close>, \<^verbatim>\<open>os.WriteFile\<close> and \<^verbatim>\<open>filepath.Join\<close>. The state is a map from
  a path to what is there: a directory or a regular file with its content. A path is
  the string the program passes; it is the key as it stands, so the model is about
  clean paths (no \<^verbatim>\<open>.\<close> or \<^verbatim>\<open>..\<close> element, no doubled or trailing slash). There are
  no permissions, links or other processes: an operation fails only where the shape
  of the tree makes it fail.\<close>

datatype node = Dir | File string

type_synonym filesystem = "string \<Rightarrow> node option"

datatype os_error = ErrNotExist | ENOTDIR | EISDIR

definition IsNotExist :: "os_error \<Rightarrow> bool" where
  "IsNotExist err \<longleftrightarrow> err = ErrNotExist"

text \<open>The directories above a path: its non-empty prefixes that end before a slash.
  The root of an absolute path and the working directory of a relative one are always
  there and are left out. \<open>parentsFrom seen rest\<close> walks through \<open>rest\<close> with the part
  of the path already passed in \<open>seen\<close>.\<close>

fun parentsFrom :: "string \<Rightarrow> string \<Rightarrow> string list" where
  "parentsFrom seen [] = []"
| "parentsFrom seen (c # rest) =
     (if c = CHR ''/'' \<and> seen \<noteq> [] then seen # parentsFrom (seen @ [c]) rest
      else parentsFrom (seen @ [c]) rest)"

definition parents :: "string \<Rightarrow> string list" where
  "parents path = parentsFrom [] path"

definition isFile :: "node option \<Rightarrow> bool" where
  "isFile entry = (case entry of Some (File content) \<Rightarrow> True | _ \<Rightarrow> False)"


text \<open>\<^verbatim>\<open>os.Stat\<close>, reduced to its error: none when the path is there, \<^verbatim>\<open>ENOTDIR\<close> when
  the path leads through a regular file, and the error that \<^verbatim>\<open>os.IsNotExist\<close>
  recognises otherwise.\<close>

definition os_Stat :: "filesystem \<Rightarrow> string \<Rightarrow> os_error option" where
  "os_Stat fs name =
     (if name = [] then Some ErrNotExist
      else if list_ex (\<lambda>d. isFile (fs d)) (parents name) then Some ENOTDIR
      else if fs name = None then Some ErrNotExist
      else None)"



text \<open>\<^verbatim>\<open>os.WriteFile\<close> creates the file or replaces its content. The directory of the
  file has to be there, and the path itself must not be a directory.\<close>

definition os_WriteFile :: "filesystem \<Rightarrow> string \<Rightarrow> string \<Rightarrow> os_error option \<times> filesystem" where
  "os_WriteFile fs name content =
     (if name = [] then (Some ErrNotExist, fs)
      else if list_ex (\<lambda>d. isFile (fs d)) (parents name) then (Some ENOTDIR, fs)
      else if list_ex (\<lambda>d. fs d = None) (parents name) then (Some ErrNotExist, fs)
      else if fs name = Some Dir then (Some EISDIR, fs)
      else (None, fs(name \<mapsto> File content)))"

text \<open>\<^verbatim>\<open>filepath.Join\<close> of a directory and a file name, for a clean directory path
  (Go cleans the result; the model does not).\<close>

definition filepath_Join :: "string \<Rightarrow> string \<Rightarrow> string" where
  "filepath_Join dir name = (if dir = [] then name else dir @ ''/'' @ name)"

section \<open>Resetting a directory\<close>


section \<open>Generating the files of a service\<close>

text \<open>The errors that \<^verbatim>\<open>generateFrontendApi\<close> builds with \<^verbatim>\<open>fmt.Errorf\<close>: which step
  failed, for which path, and the error of the operating system.\<close>

datatype gen_error =
    CheckDirFailed string os_error
  | WriteFailed string os_error
  | CheckDirFailedJS string os_error
  | WriteFailedJS string os_error

text \<open>The loop over the targets of the typed flavor.\<close>

fun writeTypeScriptFiles ::
  "PluginConfig \<Rightarrow> string \<Rightarrow> string \<Rightarrow> MethodInfo list \<Rightarrow> (string \<times> string list) list
     \<Rightarrow> OutputPathConfig list \<Rightarrow> filesystem \<Rightarrow> gen_error option \<times> filesystem" where
  "writeTypeScriptFiles config serviceName apiFileName methods typeImports [] fs = (None, fs)"
| "writeTypeScriptFiles config serviceName apiFileName methods typeImports (outputPathConfig # rest) fs =
     (let serviceImport =
            (if ServiceImport outputPathConfig = [] then GlobalServiceImport config
             else ServiceImport outputPathConfig);
          data = \<lparr>ServiceName = serviceName, ApiFileName = apiFileName, Methods = methods,
                  InfoServiceImport = serviceImport, InfoTypesImportPath = TypesImportPath config,
                  TypeImports = typeImports\<rparr>;
          code = generateTypeScriptCode data;
          fileName = toCamelCase serviceName @ ''Api.ts''
      in case os_Stat fs (Path outputPathConfig) of
           Some err \<Rightarrow>
             if IsNotExist err
             then writeTypeScriptFiles config serviceName apiFileName methods typeImports rest fs
             else (Some (CheckDirFailed (Path outputPathConfig) err), fs)
         | None \<Rightarrow>
             (let fullPath = filepath_Join (Path outputPathConfig) fileName in
              case os_WriteFile fs fullPath code of
                (Some err, fs') \<Rightarrow> (Some (WriteFailed fullPath err), fs')
              | (None, fs') \<Rightarrow>
                  writeTypeScriptFiles config serviceName apiFileName methods typeImports rest fs'))"

text \<open>The loop over the targets of the untyped flavor.\<close>

fun writeJavaScriptFiles ::
  "PluginConfig \<Rightarrow> string \<Rightarrow> string \<Rightarrow> MethodInfo list
     \<Rightarrow> OutputPathConfig list \<Rightarrow> filesystem \<Rightarrow> gen_error option \<times> filesystem" where
  "writeJavaScriptFiles config serviceName apiFileName methods [] fs = (None, fs)"
| "writeJavaScriptFiles config serviceName apiFileName methods (outputPathConfig # rest) fs =
     (let serviceImport0 = ServiceImport outputPathConfig;
          serviceImport1 = (if serviceImport0 = [] then ServiceImportJS config else serviceImport0);
          serviceImport = (if serviceImport1 = [] then GlobalServiceImport config else serviceImport1);
          data = \<lparr>ServiceName = serviceName, ApiFileName = apiFileName, Methods = methods,
                  InfoServiceImport = serviceImport, InfoTypesImportPath = [], TypeImports = []\<rparr>;
          code = generateJavaScriptCode data;
          fileName = toCamelCase serviceName @ ''Api.js''
      in case os_Stat fs (Path outputPathConfig) of
           Some err \<Rightarrow>
             if IsNotExist err
             then writeJavaScriptFiles config serviceName apiFileName methods rest fs
             else (Some (CheckDirFailedJS (Path outputPathConfig) err), fs)
         | None \<Rightarrow>
             (let fullPath = filepath_Join (Path outputPathConfig) fileName in
              case os_WriteFile fs fullPath code of
                (Some err, fs') \<Rightarrow> (Some (WriteFailedJS fullPath err), fs')
              | (None, fs') \<Rightarrow>
                  writeJavaScriptFiles config serviceName apiFileName methods rest fs'))"

text \<open>\<^verbatim>\<open>generateFrontendApi\<close> for one service. The arguments \<^verbatim>\<open>gen\<close> and \<^verbatim>\<open>file\<close> of
  the source are not read. The result is the error, if any, and the file system
  afterwards.\<close>

definition generateFrontendApi ::
  "Service \<Rightarrow> PluginConfig \<Rightarrow> filesystem \<Rightarrow> gen_error option \<times> filesystem" where
  "generateFrontendApi service config fs =
     (let serviceName = TrimSuffix (ServiceDescName service) ''Service'';
          apiFileName = toCamelCase serviceName @ ''Api'';
          methods = boundMethods service
      in if length methods = 0 then (None, fs)
         else (let typeImports = collectTypeImports service methods;
                   allOutputPaths = OutputPaths config
               in if length allOutputPaths = 0 then (None, fs)
                  else (case writeTypeScriptFiles config serviceName apiFileName methods
                               typeImports allOutputPaths fs of
                          (Some err, fs') \<Rightarrow> (Some err, fs')
                        | (None, fs') \<Rightarrow>
                            writeJavaScriptFiles config serviceName apiFileName methods
                              (OutputPathsJS config) fs')))"

section \<open>Example inputs\<close>

text \<open>A method with the options replaced by an HTTP annotation that has the given
  pattern.\<close>

abbreviation annotated :: "Method \<Rightarrow> isHttpRule_Pattern option \<Rightarrow> Method" where
  "annotated method pattern \<equiv>
     method\<lparr>Options := Some (MethodOptions (Some (annotations_HttpRule pattern)))\<rparr>"

text \<open>The service of the scenarios of the specification: \<^verbatim>\<open>UserService\<close> with the one
  method \<^verbatim>\<open>GetUser\<close>, bound to \<^verbatim>\<open>post /api/UserService/GetUser\<close>, both messages
  declared in \<^verbatim>\<open>proto/user/user.proto\<close>.\<close>

definition getUser :: Method where
  "getUser =
     \<lparr>MethodDescName = ''GetUser'',
      Options = Some (MethodOptions (Some (annotations_HttpRule
                  (Some (HttpRule_Post ''/api/UserService/GetUser''))))),
      Input = \<lparr>MessageName = ''GetUserReq'', ParentFile = Some ''proto/user/user.proto''\<rparr>,
      Output = \<lparr>MessageName = ''GetUserResp'', ParentFile = Some ''proto/user/user.proto''\<rparr>\<rparr>"

definition userService :: Service where
  "userService = \<lparr>ServiceDescName = ''UserService'', ServiceMethods = [getUser]\<rparr>"

text \<open>A service none of whose methods has a usable binding: no options, no annotation,
  an unset pattern, a custom verb, and a verb with the empty path.\<close>

definition healthService :: Service where
  "healthService =
     \<lparr>ServiceDescName = ''HealthService'',
      ServiceMethods =
        [getUser\<lparr>MethodDescName := ''Ping'', Options := None\<rparr>,
         getUser\<lparr>MethodDescName := ''Check'', Options := Some (MethodOptions None)\<rparr>,
         annotated (getUser\<lparr>MethodDescName := ''Watch''\<rparr>) None,
         annotated (getUser\<lparr>MethodDescName := ''Probe''\<rparr>) (Some (HttpRule_Custom ''HEAD'' ''/health'')),
         annotated (getUser\<lparr>MethodDescName := ''Status''\<rparr>) (Some (HttpRule_Get []))]\<rparr>"

text \<open>A project tree: the directories \<^verbatim>\<open>src\<close>, \<^verbatim>\<open>src/api\<close> and \<^verbatim>\<open>src/js\<close>, and a file
  left in \<^verbatim>\<open>src/api\<close> by an earlier run.\<close>

definition projectTree :: filesystem where
  "projectTree =
     [''src'' \<mapsto> Dir, ''src/api'' \<mapsto> Dir, ''src/js'' \<mapsto> Dir,
      ''src/api/orderApi.ts'' \<mapsto> File ''stale'']"

text \<open>The configurations of the two scenarios of the specification, as
  \<^verbatim>\<open>parsePluginOptions\<close> returns them.\<close>

definition typedConfig :: PluginConfig where
  "typedConfig =
     \<lparr>GlobalServiceImport = ''@/api/api'', ServiceImportJS = [],
      TypesImportPath = ''@/api/proto-types'',
      OutputPaths = [\<lparr>Path = ''src/api'', ServiceImport = []\<rparr>],
      OutputPathsJS = []\<rparr>"

definition untypedConfig :: PluginConfig where
  "untypedConfig =
     \<lparr>GlobalServiceImport = ''./api'', ServiceImportJS = ''@/api/api.js'',
      TypesImportPath = ''@/api/proto-types'',
      OutputPaths = [],
      OutputPathsJS = [\<lparr>Path = ''src/js'', ServiceImport = []\<rparr>]\<rparr>"

text \<open>The text of \<^verbatim>\<open>userApi.ts\<close> in the typed scenario, line by line.\<close>

definition userApiTs :: string where
  "userApiTs =
     ''import service from '' @ quote @ ''@/api/api'' @ quote @ '';'' @ nl
     @ ''import type { GetUserReq, GetUserResp } from '' @ quote
       @ ''@/api/proto-types/proto/user/user'' @ quote @ '';'' @ nl
     @ nl
     @ ''export const userApi = {'' @ nl
     @ ''  GetUser: (data: GetUserReq): Promise<GetUserResp> =>'' @ nl
     @ ''    service.post('/api/UserService/GetUser', data)'' @ nl
     @ ''};'' @ nl
     @ nl
     @ ''export default userApi;'' @ nl"

text \<open>The text of \<^verbatim>\<open>userApi.js\<close> in the untyped scenario.\<close>

definition userApiJs :: string where
  "userApiJs =
     ''import service from '' @ quote @ ''@/api/api.js'' @ quote @ '';'' @ nl
     @ nl
     @ ''export const userApi = {'' @ nl
     @ ''    GetUser: (data) => service.post('/api/UserService/GetUser', data)'' @ nl
     @ ''};'' @ nl
     @ nl
     @ ''export default userApi;'' @ nl"

text \<open>A service with two bound methods whose request types have the same simple name
  \<^verbatim>\<open>Req\<close> and are declared in different files, and the same service with the two
  methods in the other order.\<close>

definition getOrder :: Method where
  "getOrder =
     \<lparr>MethodDescName = ''GetOrder'',
      Options = Some (MethodOptions (Some (annotations_HttpRule
                  (Some (HttpRule_Post ''/api/OrderService/GetOrder''))))),
      Input = \<lparr>MessageName = ''Req'', ParentFile = Some ''proto/order/order.proto''\<rparr>,
      Output = \<lparr>MessageName = ''Order'', ParentFile = Some ''proto/order/order.proto''\<rparr>\<rparr>"

definition getBuyer :: Method where
  "getBuyer =
     \<lparr>MethodDescName = ''GetBuyer'',
      Options = Some (MethodOptions (Some (annotations_HttpRule
                  (Some (HttpRule_Get ''/api/OrderService/GetBuyer''))))),
      Input = \<lparr>MessageName = ''Req'', ParentFile = Some ''proto/user/user.proto''\<rparr>,
      Output = \<lparr>MessageName = ''Buyer'', ParentFile = Some ''proto/user/user.proto''\<rparr>\<rparr>"

definition orderService :: Service where
  "orderService = \<lparr>ServiceDescName = ''OrderService'', ServiceMethods = [getOrder, getBuyer]\<rparr>"

definition orderServiceSwapped :: Service where
  "orderServiceSwapped = \<lparr>ServiceDescName = ''OrderService'', ServiceMethods = [getBuyer, getOrder]\<rparr>"




section \<open>Properties of the string functions\<close>














section \<open>The list grammar of the output paths\<close>










section \<open>The targets of a configuration\<close>












section \<open>The option parser\<close>













section \<open>The binding extractor\<close>

text \<open>Claim C3. \<^verbatim>\<open>extractHttpRule\<close> returns nothing for a method without options,
  without the HTTP annotation, or with an annotation whose pattern is unset. For each of
  the five verb variants with a non-empty path it returns that verb, in lower case, and
  that path as it is. A verb variant with the empty path yields nothing.\<close>

theorem extractHttpRule_binding:
  "extractHttpRule (method\<lparr>Options := None\<rparr>) = None
   \<and> extractHttpRule (method\<lparr>Options := Some (MethodOptions None)\<rparr>) = None
   \<and> extractHttpRule (annotated method None) = None
   \<and> (path \<noteq> [] \<longrightarrow>
        extractHttpRule (annotated method (Some (HttpRule_Post path)))
          = Some \<lparr>HttpVerb = ''post'', HttpRulePath = path\<rparr>
      \<and> extractHttpRule (annotated method (Some (HttpRule_Get path)))
          = Some \<lparr>HttpVerb = ''get'', HttpRulePath = path\<rparr>
      \<and> extractHttpRule (annotated method (Some (HttpRule_Put path)))
          = Some \<lparr>HttpVerb = ''put'', HttpRulePath = path\<rparr>
      \<and> extractHttpRule (annotated method (Some (HttpRule_Delete path)))
          = Some \<lparr>HttpVerb = ''delete'', HttpRulePath = path\<rparr>
      \<and> extractHttpRule (annotated method (Some (HttpRule_Patch path)))
          = Some \<lparr>HttpVerb = ''patch'', HttpRulePath = path\<rparr>)
   \<and> extractHttpRule (annotated method (Some (HttpRule_Post []))) = None
   \<and> extractHttpRule (annotated method (Some (HttpRule_Get []))) = None
   \<and> extractHttpRule (annotated method (Some (HttpRule_Put []))) = None
   \<and> extractHttpRule (annotated method (Some (HttpRule_Delete []))) = None
   \<and> extractHttpRule (annotated method (Some (HttpRule_Patch []))) = None"
  by (simp add: extractHttpRule_def)

theorem extractHttpRule_binding_witness:
  "extractHttpRule (annotated getUser (Some (HttpRule_Post ''/api/UserService/GetUser'')))
     = Some \<lparr>HttpVerb = ''post'', HttpRulePath = ''/api/UserService/GetUser''\<rparr>
   \<and> extractHttpRule (annotated getUser (Some (HttpRule_Patch ''/api/UserService/GetUser'')))
     = Some \<lparr>HttpVerb = ''patch'', HttpRulePath = ''/api/UserService/GetUser''\<rparr>"
proof -
  have h: "''/api/UserService/GetUser'' \<noteq> []" by simp
  show ?thesis
    using h extractHttpRule_binding [of getUser "''/api/UserService/GetUser''"] by blast
qed

section \<open>Services without bindings\<close>

lemma boundMethods_none:
  "(\<forall>m \<in> set (ServiceMethods service). extractHttpRule m = None) \<Longrightarrow> boundMethods service = []"
  by (simp add: boundMethods_def methodInfo_def)


text \<open>Claim C9. For a service whose methods all lack a usable HTTP binding
  (\<^verbatim>\<open>extractHttpRule\<close> returns nothing for each of them), \<^verbatim>\<open>generateFrontendApi\<close> reports
  no error and leaves the file system as it was, whatever the targets of the two
  flavors are: no file is written in any directory.\<close>

theorem unbound_service_no_output:
  assumes "\<forall>m \<in> set (ServiceMethods service). extractHttpRule m = None"
  shows "generateFrontendApi service config fs = (None, fs)"
  using boundMethods_none [OF assms] by (simp add: generateFrontendApi_def)

theorem unbound_service_no_output_witness:
  "map extractHttpRule (ServiceMethods healthService) = [None, None, None, None, None]
   \<and> generateFrontendApi healthService (typedConfig\<lparr>OutputPathsJS := OutputPathsJS untypedConfig\<rparr>) projectTree
       = (None, projectTree)"
proof -
  have h: "\<forall>m \<in> set (ServiceMethods healthService). extractHttpRule m = None"
    by (simp add: healthService_def extractHttpRule_def)
  have "map extractHttpRule (ServiceMethods healthService) = [None, None, None, None, None]"
    by (simp add: healthService_def extractHttpRule_def)
  then show ?thesis
    using unbound_service_no_output [OF h] by simp
qed

section \<open>The scenarios of the user service\<close>

lemma userService_methods:
  "boundMethods userService =
     [\<lparr>MethodName = ''GetUser'', HttpPath = ''/api/UserService/GetUser'', HttpMethod = ''post'',
       RequestType = ''GetUserReq'', ResponseType = ''GetUserResp''\<rparr>]"
  by (simp add: boundMethods_def userService_def getUser_def methodInfo_def extractHttpRule_def
      ToLower_def toLowerByte_def)

lemma userService_imports:
  "collectTypeImports userService
     [\<lparr>MethodName = ''GetUser'', HttpPath = ''/api/UserService/GetUser'', HttpMethod = ''post'',
       RequestType = ''GetUserReq'', ResponseType = ''GetUserResp''\<rparr>]
     = [(''proto/user/user'', [''GetUserReq'', ''GetUserResp''])]"
  by (simp add: collectTypeImports_def userService_def getUser_def scanMethod_def recordType_def
      groupImports_def addImport_def protoFileToImportPath_def TrimSuffix_def HasSuffix_def
      TrimPrefix_def ReplaceAll_def uniqueAndSort_def)

lemma userService_names:
  "TrimSuffix (ServiceDescName userService) ''Service'' = ''User''" "toCamelCase ''User'' = ''user''"
  by (simp_all add: userService_def TrimSuffix_def HasSuffix_def toCamelCase_def ToLower_def toLowerByte_def)

lemma typed_scenario_text:
  "generateTypeScriptCode
     \<lparr>ServiceName = ''User'', ApiFileName = ''userApi'',
      Methods = [\<lparr>MethodName = ''GetUser'', HttpPath = ''/api/UserService/GetUser'',
                  HttpMethod = ''post'', RequestType = ''GetUserReq'',
                  ResponseType = ''GetUserResp''\<rparr>],
      InfoServiceImport = ''@/api/api'', InfoTypesImportPath = ''@/api/proto-types'',
      TypeImports = [(''proto/user/user'', [''GetUserReq'', ''GetUserResp''])]\<rparr> = userApiTs"
  by (simp add: generateTypeScriptCode_def typeImportBlock_def sortedImportPaths_def
      typeImportLine_def HasSuffix_def userApiTs_def nl_def quote_def)

lemma untyped_scenario_text:
  "generateJavaScriptCode
     \<lparr>ServiceName = ''User'', ApiFileName = ''userApi'',
      Methods = [\<lparr>MethodName = ''GetUser'', HttpPath = ''/api/UserService/GetUser'',
                  HttpMethod = ''post'', RequestType = ''GetUserReq'',
                  ResponseType = ''GetUserResp''\<rparr>],
      InfoServiceImport = ''@/api/api.js'', InfoTypesImportPath = [], TypeImports = []\<rparr> = userApiJs"
  by (simp add: generateJavaScriptCode_def userApiJs_def nl_def quote_def)

lemma projectTree_stat: "os_Stat projectTree ''src/api'' = None" "os_Stat projectTree ''src/js'' = None"
  by (simp_all add: os_Stat_def projectTree_def parents_def isFile_def)

lemma projectTree_write:
  "os_WriteFile projectTree ''src/api/userApi.ts'' text
     = (None, projectTree(''src/api/userApi.ts'' \<mapsto> File text))"
  "os_WriteFile projectTree ''src/js/userApi.js'' text
     = (None, projectTree(''src/js/userApi.js'' \<mapsto> File text))"
  by (simp_all add: os_WriteFile_def projectTree_def parents_def isFile_def)

lemma typedConfig_parsed:
  "parsePluginOptions ''service_import=@/api/api,output_paths=src/api,types_import_path=@/api/proto-types''
     = Inr typedConfig"
  by (simp add: parsePluginOptions_def parsePair_def SplitN2_def applyOption_def defaultConfig_def
      parseOutputPaths_def parseOutputEntry_def TrimSpace_def asciiSpace_def typedConfig_def)

lemma untypedConfig_parsed:
  "parsePluginOptions ''output_paths_js=src/js,service_import_js=@/api/api.js'' = Inr untypedConfig"
  by (simp add: parsePluginOptions_def parsePair_def SplitN2_def applyOption_def defaultConfig_def
      parseOutputPaths_def parseOutputEntry_def TrimSpace_def asciiSpace_def untypedConfig_def)

lemma typed_scenario_run:
  "generateFrontendApi userService typedConfig projectTree
     = (None, projectTree(''src/api/userApi.ts'' \<mapsto> File userApiTs))"
  by (simp add: generateFrontendApi_def userService_names userService_methods userService_imports
      typedConfig_def typed_scenario_text projectTree_stat projectTree_write filepath_Join_def)

lemma untyped_loop_run:
  "writeJavaScriptFiles untypedConfig ''User'' ''userApi'' (boundMethods userService)
       (OutputPathsJS untypedConfig) projectTree
     = (None, projectTree(''src/js/userApi.js'' \<mapsto> File userApiJs))"
  by (simp add: userService_names userService_methods untypedConfig_def untyped_scenario_text
      projectTree_stat projectTree_write filepath_Join_def)


text \<open>Claim C1, evaluated on the code. The service has a bound method, the configuration
  \<^verbatim>\<open>output_paths_js=src/js,service_import_js=@/api/api.js\<close> has no typed target and one
  untyped target, and the directory \<^verbatim>\<open>src/js\<close> is there. \<^verbatim>\<open>generateFrontendApi\<close> returns
  without an error and without writing \<^verbatim>\<open>src/js/userApi.js\<close>: the test for an empty typed
  list returns before the loop over the untyped targets. That loop, run on the same
  input, writes the file.\<close>

theorem untyped_only_scenario_writes_nothing:
  "parsePluginOptions ''output_paths_js=src/js,service_import_js=@/api/api.js'' = Inr untypedConfig
   \<and> boundMethods userService \<noteq> []
   \<and> os_Stat projectTree ''src/js'' = None
   \<and> generateFrontendApi userService untypedConfig projectTree = (None, projectTree)
   \<and> projectTree ''src/js/userApi.js'' = None
   \<and> writeJavaScriptFiles untypedConfig ''User'' ''userApi'' (boundMethods userService)
        (OutputPathsJS untypedConfig) projectTree
       = (None, projectTree(''src/js/userApi.js'' \<mapsto> File userApiJs))"
proof (intro conjI)
  show "parsePluginOptions ''output_paths_js=src/js,service_import_js=@/api/api.js'' = Inr untypedConfig"
    by (rule untypedConfig_parsed)
  show "boundMethods userService \<noteq> []"
    by (simp add: userService_methods)
  show "os_Stat projectTree ''src/js'' = None"
    by (rule projectTree_stat)
  show "generateFrontendApi userService untypedConfig projectTree = (None, projectTree)"
    by (simp add: generateFrontendApi_def untypedConfig_def Let_def)
  show "projectTree ''src/js/userApi.js'' = None"
    by (simp add: projectTree_def)
  show "writeJavaScriptFiles untypedConfig ''User'' ''userApi'' (boundMethods userService)
        (OutputPathsJS untypedConfig) projectTree
       = (None, projectTree(''src/js/userApi.js'' \<mapsto> File userApiJs))"
    by (rule untyped_loop_run)
qed


text \<open>Claim C2, as stated: the entry of the object is the text
  \<^verbatim>\<open>GetUser: (data: GetUserReq): Promise<GetUserResp> => service.post(...)\<close>. The file that
  the generator writes does not contain that text: the renderer breaks the line after
  the arrow.\<close>

theorem typed_entry_one_line_counterexample:
  "(case snd (generateFrontendApi userService typedConfig projectTree) ''src/api/userApi.ts'' of
      Some (File text) \<Rightarrow>
        \<not> sublist ''GetUser: (data: GetUserReq): Promise<GetUserResp> => service.post('/api/UserService/GetUser', data)'' text
    | _ \<Rightarrow> False)"
  by (simp add: typed_scenario_run userApiTs_def nl_def quote_def sublist_code(3))


text \<open>Claim C2, amended. In the typed scenario the generator writes \<^verbatim>\<open>src/api/userApi.ts\<close>
  with exactly this text: the default import of \<^verbatim>\<open>service\<close> from \<^verbatim>\<open>@/api/api\<close>, one
  type-only import of \<^verbatim>\<open>{ GetUserReq, GetUserResp }\<close> from
  \<^verbatim>\<open>@/api/proto-types/proto/user/user\<close>, a blank line, the object \<^verbatim>\<open>userApi\<close> with the
  single entry on two lines (the signature up to the arrow, indented by two spaces, then
  the call of \<^verbatim>\<open>service.post\<close>, indented by four) without a trailing comma, a blank
  line, and the default export of \<^verbatim>\<open>userApi\<close>.\<close>

theorem typed_scenario_output:
  "parsePluginOptions ''service_import=@/api/api,output_paths=src/api,types_import_path=@/api/proto-types''
     = Inr typedConfig
   \<and> generateFrontendApi userService typedConfig projectTree
       = (None, projectTree(''src/api/userApi.ts'' \<mapsto> File userApiTs))
   \<and> userApiTs =
       ''import service from '@/api/api';'' @ nl
       @ ''import type { GetUserReq, GetUserResp } from '@/api/proto-types/proto/user/user';'' @ nl
       @ nl
       @ ''export const userApi = {'' @ nl
       @ ''  GetUser: (data: GetUserReq): Promise<GetUserResp> =>'' @ nl
       @ ''    service.post('/api/UserService/GetUser', data)'' @ nl
       @ ''};'' @ nl
       @ nl
       @ ''export default userApi;'' @ nl"
  by (simp add: typedConfig_parsed typed_scenario_run) (simp add: userApiTs_def quote_def)

section \<open>Resetting a directory twice\<close>







lemma isFile_simps [simp]: "isFile None = False" "isFile (Some Dir) = False" "isFile (Some (File c)) = True"
  by (simp_all add: isFile_def)
















section \<open>The grouping of the type imports\<close>

subsection \<open>The scan of the methods\<close>

lemma recordType_fold:
  "recordType msg acc = fold (\<lambda>(k, v). AList.update k v) (messageRecord msg) acc"
  by (simp add: recordType_def messageRecord_def split: option.splits)

lemma scanMethod_step:
  "scanMethod names m acc
     = fold (\<lambda>(k, v). AList.update k v)
         (if MethodDescName m \<in> set names
          then messageRecord (Input m) @ messageRecord (Output m) else []) acc"
  by (simp add: scanMethod_def recordType_fold)

lemma scanMethod_fold:
  "fold (scanMethod names) methods acc
     = fold (\<lambda>(k, v). AList.update k v) (recordedTypes names methods) acc"
proof (induction methods arbitrary: acc)
  case Nil
  show ?case by (simp add: recordedTypes_def)
next
  case (Cons m methods)
  let ?here = "if MethodDescName m \<in> set names
               then messageRecord (Input m) @ messageRecord (Output m) else []"
  have split: "recordedTypes names (m # methods) = ?here @ recordedTypes names methods"
    by (simp add: recordedTypes_def)
  have "fold (scanMethod names) (m # methods) acc
          = fold (scanMethod names) methods (scanMethod names m acc)"
    by simp
  also have "\<dots> = fold (\<lambda>(k, v). AList.update k v) (recordedTypes names methods)
                     (scanMethod names m acc)"
    by (rule Cons.IH)
  also have "\<dots> = fold (\<lambda>(k, v). AList.update k v) (recordedTypes names (m # methods)) acc"
    by (simp only: split fold_append scanMethod_step o_apply)
  finally show ?case .
qed

lemma map_of_fold_update:
  "map_of (fold (\<lambda>(k, v). AList.update k v) records acc) = map_of (rev records @ acc)"
proof (induction records arbitrary: acc)
  case Nil
  show ?case by simp
next
  case (Cons r records)
  obtain k v where r: "r = (k, v)" by (cases r)
  show ?case
    by (simp add: r Cons.IH map_of_append update_conv')
qed

lemma distinct_fold_update:
  "distinct (map fst acc) \<Longrightarrow> distinct (map fst (fold (\<lambda>(k, v). AList.update k v) records acc))"
  by (induction records arbitrary: acc) (auto simp: distinct_update)

text \<open>The file stored for a name is the one recorded last.\<close>

lemma typeFileMap_last:
  "map_of (fold (scanMethod names) methods []) = map_of (rev (recordedTypes names methods))"
  by (simp add: scanMethod_fold map_of_fold_update)

lemma typeFileMap_distinct: "distinct (map fst (fold (scanMethod names) methods []))"
  by (simp add: scanMethod_fold distinct_fold_update)

lemma typeFileMap_set:
  "set (fold (scanMethod names) methods [])
     = {(n, f). map_of (rev (recordedTypes names methods)) n = Some f}"
  using typeFileMap_distinct [of names methods] typeFileMap_last [of names methods]
  by (auto simp del: map_of_eq_Some_iff simp add: map_of_eq_Some_iff [symmetric])

lemma map_of_rev_last:
  assumes "records = before @ [(n, f)] @ after" and "n \<notin> fst ` set after"
  shows "map_of (rev records) n = Some f"
proof -
  have "map_of (rev after) n = None"
    using assms(2) by (simp add: map_of_eq_None_iff)
  then show ?thesis
    by (simp add: assms(1) map_of_append map_add_def)
qed


subsection \<open>Grouping\<close>

lemma uniqueAndSort_set: "uniqueAndSort strs = sorted_list_of_set (set strs)"
  by (simp add: uniqueAndSort_def sorted_list_of_set_sort_remdups)

text \<open>Reading the set back in any order gives the same sorted list.\<close>

lemma uniqueAndSort_any_order:
  "distinct unique \<Longrightarrow> set unique = set strs \<Longrightarrow> sort unique = uniqueAndSort strs"
  by (metis uniqueAndSort_set distinct_remdups_id sorted_list_of_set_sort_remdups)

lemma map_of_fold_addImport:
  "map_of (fold addImport entries acc) p =
     (let new = map fst (filter (\<lambda>e. protoFileToImportPath (snd e) = p) entries) in
      if p \<noteq> [] \<and> new \<noteq> []
      then Some ((case map_of acc p of None \<Rightarrow> [] | Some names \<Rightarrow> names) @ new)
      else map_of acc p)"
proof (induction entries arbitrary: acc)
  case Nil
  show ?case by simp
next
  case (Cons e entries)
  show ?case
  proof (cases "protoFileToImportPath (snd e) = []")
    case True
    then have "addImport e acc = acc" by (simp add: addImport_def Let_def)
    with True show ?thesis by (auto simp: Cons.IH Let_def)
  next
    case False
    then have "addImport e acc
        = AList.update (protoFileToImportPath (snd e))
            ((case map_of acc (protoFileToImportPath (snd e)) of None \<Rightarrow> [] | Some names \<Rightarrow> names)
             @ [fst e]) acc"
      by (simp add: addImport_def Let_def)
    with False show ?thesis
      by (auto simp: Cons.IH Let_def update_conv')
  qed
qed


lemma map_of_groupImports:
  "map_of (groupImports entries) p =
     (let new = map fst (filter (\<lambda>e. protoFileToImportPath (snd e) = p) entries) in
      if p \<noteq> [] \<and> new \<noteq> [] then Some (uniqueAndSort new) else None)"
  by (simp add: groupImports_def map_of_map map_of_fold_addImport Let_def)


lemma group_member:
  "(\<exists>names. map_of (groupImports entries) p = Some names \<and> n \<in> set names)
     \<longleftrightarrow> p \<noteq> [] \<and> (\<exists>f. (n, f) \<in> set entries \<and> protoFileToImportPath f = p)"
  by (auto simp: map_of_groupImports Let_def uniqueAndSort_set image_iff filter_empty_conv
      split: if_splits)







subsection \<open>The example services\<close>

lemma orderService_methods:
  "map MethodName (boundMethods orderService) = [''GetOrder'', ''GetBuyer'']"
  "map MethodName (boundMethods orderServiceSwapped) = [''GetBuyer'', ''GetOrder'']"
  by (simp_all add: boundMethods_def orderService_def orderServiceSwapped_def getOrder_def
      getBuyer_def methodInfo_def extractHttpRule_def)


lemmas import_eval =
  scanMethod_def recordType_def groupImports_def addImport_def
  protoFileToImportPath_def TrimSuffix_def HasSuffix_def TrimPrefix_def ReplaceAll_def
  uniqueAndSort_def

lemma orderService_imports:
  "collectTypeImports orderService (boundMethods orderService)
     = [(''proto/user/user'', [''Buyer'', ''Req'']), (''proto/order/order'', [''Order''])]"
  "collectTypeImports orderServiceSwapped (boundMethods orderServiceSwapped)
     = [(''proto/order/order'', [''Order'', ''Req'']), (''proto/user/user'', [''Buyer''])]"
  unfolding collectTypeImports_def orderService_methods
  by (simp_all add: import_eval orderService_def orderServiceSwapped_def getOrder_def getBuyer_def)



subsection \<open>Order of the methods\<close>







subsection \<open>Types that share a simple name\<close>

text \<open>Claim C10. \<^verbatim>\<open>collectTypeImports\<close> keys the types by their simple name: for every
  service, a type name is in at most one import group. The group it is in belongs to
  the file recorded last for that name during the scan of the methods: when the same
  simple name was recorded earlier with another file, that file's group has no entry
  for the name (and no group has it when the last file has no import path).\<close>

theorem import_keyed_by_simple_name:
  "(map_of (collectTypeImports service methods) p1 = Some names1 \<and> n \<in> set names1
      \<and> map_of (collectTypeImports service methods) p2 = Some names2 \<and> n \<in> set names2
      \<longrightarrow> p1 = p2)
   \<and> (recordedTypes (map MethodName methods) (ServiceMethods service) = before @ [(n, f)] @ after
        \<and> n \<notin> fst ` set after
      \<longrightarrow> (\<forall>p. (\<exists>names. map_of (collectTypeImports service methods) p = Some names \<and> n \<in> set names)
                \<longleftrightarrow> p = protoFileToImportPath f \<and> p \<noteq> []))"
proof (intro conjI impI allI)
  let ?T = "fold (scanMethod (map MethodName methods)) (ServiceMethods service) []"
  let ?R = "recordedTypes (map MethodName methods) (ServiceMethods service)"
  have member: "(\<exists>names. map_of (collectTypeImports service methods) p = Some names \<and> n \<in> set names)
      \<longleftrightarrow> p \<noteq> [] \<and> (\<exists>f. map_of (rev ?R) n = Some f \<and> protoFileToImportPath f = p)" for p n
    unfolding collectTypeImports_def group_member by (simp add: typeFileMap_set)
  show "p1 = p2"
    if "map_of (collectTypeImports service methods) p1 = Some names1 \<and> n \<in> set names1
      \<and> map_of (collectTypeImports service methods) p2 = Some names2 \<and> n \<in> set names2"
  proof -
    from that member [of p1 n] member [of p2 n]
    obtain f1 f2 where "map_of (rev ?R) n = Some f1" "protoFileToImportPath f1 = p1"
      "map_of (rev ?R) n = Some f2" "protoFileToImportPath f2 = p2"
      by blast
    then show ?thesis by simp
  qed
  show "(\<exists>names. map_of (collectTypeImports service methods) p = Some names \<and> n \<in> set names)
          \<longleftrightarrow> p = protoFileToImportPath f \<and> p \<noteq> []"
    if "?R = before @ [(n, f)] @ after \<and> n \<notin> fst ` set after" for p
  proof -
    have "map_of (rev ?R) n = Some f"
      using that [THEN conjunct1] that [THEN conjunct2] by (rule map_of_rev_last)
    with member [of p n] show ?thesis by auto
  qed
qed

theorem import_keyed_by_simple_name_witness:
  "map_of (collectTypeImports orderService (boundMethods orderService)) ''proto/user/user''
     = Some [''Buyer'', ''Req'']
   \<and> map_of (collectTypeImports orderService (boundMethods orderService)) ''proto/order/order''
     = Some [''Order'']
   \<and> (\<exists>names. map_of (collectTypeImports orderService (boundMethods orderService))
                 (protoFileToImportPath ''proto/user/user.proto'') = Some names
              \<and> ''Req'' \<in> set names)"
proof -
  have h: "recordedTypes (map MethodName (boundMethods orderService)) (ServiceMethods orderService)
             = [(''Req'', ''proto/order/order.proto''), (''Order'', ''proto/order/order.proto'')]
               @ [(''Req'', ''proto/user/user.proto'')] @ [(''Buyer'', ''proto/user/user.proto'')]
           \<and> ''Req'' \<notin> fst ` set [(''Buyer'', ''proto/user/user.proto'')]"
    unfolding orderService_methods
    by (simp add: recordedTypes_def messageRecord_def orderService_def getOrder_def getBuyer_def)
  have p: "protoFileToImportPath ''proto/user/user.proto'' \<noteq> []"
    by (simp add: protoFileToImportPath_def TrimSuffix_def HasSuffix_def TrimPrefix_def ReplaceAll_def)
  from h p import_keyed_by_simple_name [of orderService "boundMethods orderService" _ _ "''Req''" _ _
      "[(''Req'', ''proto/order/order.proto''), (''Order'', ''proto/order/order.proto'')]"
      "''proto/user/user.proto''" "[(''Buyer'', ''proto/user/user.proto'')]"]
  have "\<exists>names. map_of (collectTypeImports orderService (boundMethods orderService))
                 (protoFileToImportPath ''proto/user/user.proto'') = Some names
              \<and> ''Req'' \<in> set names"
    by blast
  then show ?thesis by (simp add: orderService_imports)
qed

end
